theory Spec2Isabelle
  imports Complex_Main
begin

section \<open>Values decoded from JSON\<close>

text \<open>
  The program of \<^verbatim>\<open>bot.py\<close> works on whatever \<^verbatim>\<open>response.json()\<close> returns:
  \<^verbatim>\<open>None\<close>, a bool, an int, a float, a str, a list or a dict with string keys. A dict
  keeps its items in insertion order, so it is an association list here; a Python dict has
  no two items with one key, and \<open>map_of\<close> reads the item of a key. Strings are lists of
  characters; non-finite floats are not represented.
\<close>

datatype json =
    JNull
  | JBool bool
  | JInt int
  | JFloat real
  | JStr string
  | JList "json list"
  | JObj "(string \<times> json) list"

text \<open>The exceptions of Python that the modelled code can raise.\<close>

datatype error = AttributeError | IndexError | KeyError | TypeError | ValueError | OSError

text \<open>Python's truth value of a decoded value (\<^verbatim>\<open>if x:\<close>, \<^verbatim>\<open>not x\<close>).\<close>

fun truthy :: "json \<Rightarrow> bool" where
  "truthy JNull = False"
| "truthy (JBool b) = b"
| "truthy (JInt n) = (n \<noteq> 0)"
| "truthy (JFloat r) = (r \<noteq> 0)"
| "truthy (JStr s) = (s \<noteq> [])"
| "truthy (JList xs) = (xs \<noteq> [])"
| "truthy (JObj kvs) = (kvs \<noteq> [])"

fun is_str :: "json \<Rightarrow> bool" where
  "is_str (JStr s) = True"
| "is_str v = False"

fun is_dict :: "json \<Rightarrow> bool" where
  "is_dict (JObj kvs) = True"
| "is_dict v = False"

text \<open>The items of a dict, and nothing for any other value.\<close>

fun items :: "json \<Rightarrow> (string \<times> json) list" where
  "items (JObj kvs) = kvs"
| "items v = []"

text \<open>\<^verbatim>\<open>d.get(k)\<close> on the items of a dict: \<^verbatim>\<open>None\<close> when the key is absent.\<close>

definition dict_get :: "(string \<times> json) list \<Rightarrow> string \<Rightarrow> json" where
  "dict_get kvs k = (case map_of kvs k of None \<Rightarrow> JNull | Some v \<Rightarrow> v)"

text \<open>\<^verbatim>\<open>d.get(k, default)\<close>.\<close>

definition dict_get_default :: "(string \<times> json) list \<Rightarrow> string \<Rightarrow> json \<Rightarrow> json" where
  "dict_get_default kvs k d = (case map_of kvs k of None \<Rightarrow> d | Some v \<Rightarrow> v)"

section \<open>Tables\<close>

text \<open>
  A \<^verbatim>\<open>pandas.DataFrame\<close>: the column labels in order and the rows in order, each row
  with one cell for each column. A cell is \<open>None\<close> where pandas has a missing value
  (NaN). A label is the Python value pandas holds for the column: the str of a dict key,
  or what \<^verbatim>\<open>rename\<close> put in its place.
\<close>

record dataframe =
  columns :: "json list"
  rows :: "json option list list"

text \<open>\<^verbatim>\<open>pd.DataFrame()\<close>: no column, no row.\<close>

definition DataFrame_empty :: dataframe where
  "DataFrame_empty = \<lparr>columns = [], rows = []\<rparr>"

text \<open>\<^verbatim>\<open>df.empty\<close>: one of the two axes has length 0.\<close>

definition df_empty :: "dataframe \<Rightarrow> bool" where
  "df_empty df = (columns df = [] \<or> rows df = [])"

text \<open>
  \<^verbatim>\<open>pd.DataFrame(data, columns=[name])\<close> on a list of scalars: one column, one row
  for each element, in order.
\<close>

definition DataFrame_column :: "json list \<Rightarrow> string \<Rightarrow> dataframe" where
  "DataFrame_column data name = \<lparr>columns = [JStr name], rows = map (\<lambda>x. [Some x]) data\<rparr>"

text \<open>
  \<^verbatim>\<open>pd.DataFrame(data)\<close> on a list of dicts. pandas collects the column labels by
  running over the dicts in order and over the keys of each in order, appending a key
  the first time it is seen; then it fills one row for each dict, reading each column
  with NaN as the default.
\<close>

definition add_unique :: "string \<Rightarrow> string list \<Rightarrow> string list" where
  "add_unique k seen = (if k \<in> set seen then seen else seen @ [k])"

definition unique_keys :: "json list \<Rightarrow> string list" where
  "unique_keys data = fold (\<lambda>d seen. fold add_unique (map fst (items d)) seen) data []"

definition DataFrame_dicts :: "json list \<Rightarrow> dataframe" where
  "DataFrame_dicts data =
     (let cols = unique_keys data
      in \<lparr>columns = map JStr cols,
          rows = map (\<lambda>d. map (\<lambda>k. map_of (items d) k) cols) data\<rparr>)"

text \<open>
  What the libraries do outside of the cases modelled here is not part of this
  development and is taken as a parameter: \<open>frame_other\<close> is
  \<^verbatim>\<open>pd.DataFrame(data)\<close> on a non-empty list that is not a list of dicts,
  \<open>rename_other\<close> is \<^verbatim>\<open>df.rename(columns=m)\<close> for an \<open>m\<close> that is not a
  dict, and \<open>capitalize_other\<close> is \<^verbatim>\<open>s.capitalize()\<close> for a string with a
  character outside of ASCII, where Python follows the case tables of Unicode. Every
  theorem below holds for every such parameter.
\<close>

record library =
  frame_other :: "json list \<Rightarrow> error + dataframe"
  rename_other :: "dataframe \<Rightarrow> json \<Rightarrow> error + dataframe"
  capitalize_other :: "string \<Rightarrow> string"

definition DataFrame_list :: "library \<Rightarrow> json list \<Rightarrow> error + dataframe" where
  "DataFrame_list lb data =
     (if list_all is_dict data then Inr (DataFrame_dicts data) else frame_other lb data)"

text \<open>
  \<^verbatim>\<open>df.rename(columns=m)\<close> with a dict \<open>m\<close>: a label that is a key of \<open>m\<close> is replaced
  by the value of that key, any other label stays.
\<close>

fun rename_label :: "(string \<times> json) list \<Rightarrow> json \<Rightarrow> json" where
  "rename_label m (JStr k) = (case map_of m k of None \<Rightarrow> JStr k | Some v \<Rightarrow> v)"
| "rename_label m l = l"

definition df_rename :: "library \<Rightarrow> dataframe \<Rightarrow> json \<Rightarrow> error + dataframe" where
  "df_rename lb df m =
     (case m of
        JObj kvs \<Rightarrow> Inr (df\<lparr>columns := map (rename_label kvs) (columns df)\<rparr>)
      | _ \<Rightarrow> rename_other lb df m)"

section \<open>Strings\<close>

text \<open>
  \<^verbatim>\<open>s.replace(old, new)\<close> for a pattern \<open>old\<close> of one character, and
  \<^verbatim>\<open>s.capitalize()\<close>. On a string of ASCII characters \<^verbatim>\<open>capitalize\<close> puts
  the first character in upper case and every other one in lower case, and only the
  letters a to z and A to Z have another case. On any other string the result is the
  one of the library parameter.
\<close>

definition str_replace :: "string \<Rightarrow> char \<Rightarrow> string \<Rightarrow> string" where
  "str_replace s old new = concat (map (\<lambda>c. if c = old then new else [c]) s)"

definition is_ascii :: "char \<Rightarrow> bool" where
  "is_ascii c = ((of_char c :: nat) < 128)"

definition upper_char :: "char \<Rightarrow> char" where
  "upper_char c =
     (let n = (of_char c :: nat) in if 97 \<le> n \<and> n \<le> 122 then char_of (n - 32) else c)"

definition lower_char :: "char \<Rightarrow> char" where
  "lower_char c =
     (let n = (of_char c :: nat) in if 65 \<le> n \<and> n \<le> 90 then char_of (n + 32) else c)"

fun capitalize_ascii :: "string \<Rightarrow> string" where
  "capitalize_ascii [] = []"
| "capitalize_ascii (c # cs) = upper_char c # map lower_char cs"

definition capitalize :: "library \<Rightarrow> string \<Rightarrow> string" where
  "capitalize lb s =
     (if list_all is_ascii s then capitalize_ascii s else capitalize_other lb s)"

section \<open>extrair_lista_de_metadados\<close>

text \<open>
  The loop over \<^verbatim>\<open>caminho_chaves\<close>. \<open>Inr None\<close> is the early return of the empty
  table, \<open>Inr (Some v)\<close> the end of the loop with \<^verbatim>\<open>dados_atuais\<close> equal to \<open>v\<close>.
  Only a dict has \<^verbatim>\<open>get\<close>: on any other value the call raises AttributeError.
\<close>

fun percorrer_caminho :: "json \<Rightarrow> string list \<Rightarrow> error + json option" where
  "percorrer_caminho dados_atuais [] = Inr (Some dados_atuais)"
| "percorrer_caminho dados_atuais (chave # resto) =
     (case dados_atuais of
        JObj kvs \<Rightarrow>
          (let proximo = dict_get kvs chave
           in if proximo = JNull then Inr None else percorrer_caminho proximo resto)
      | _ \<Rightarrow> Inl AttributeError)"

text \<open>\<^verbatim>\<open>caminho_chaves[-1]\<close> raises IndexError on the empty list.\<close>

definition ultima_chave :: "string list \<Rightarrow> error + string" where
  "ultima_chave caminho_chaves =
     (if caminho_chaves = [] then Inl IndexError else Inr (last caminho_chaves))"

definition extrair_lista_de_metadados ::
  "library \<Rightarrow> json \<Rightarrow> string list \<Rightarrow> error + dataframe" where
  "extrair_lista_de_metadados lb dados_json caminho_chaves =
     (case percorrer_caminho dados_json caminho_chaves of
        Inl e \<Rightarrow> Inl e
      | Inr None \<Rightarrow> Inr DataFrame_empty
      | Inr (Some lista_de_dados) \<Rightarrow>
          (case lista_de_dados of
             JList xs \<Rightarrow>
               if xs = [] then Inr DataFrame_empty
               else if list_all is_str xs then
                 (case ultima_chave caminho_chaves of
                    Inl e \<Rightarrow> Inl e
                  | Inr chave \<Rightarrow>
                      Inr (DataFrame_column xs (capitalize lb (str_replace chave CHR ''s'' []))))
               else DataFrame_list lb xs
           | _ \<Rightarrow> Inr DataFrame_empty))"

section \<open>processar_dados_numericos\<close>

text \<open>
  \<^verbatim>\<open>len(x)\<close> for a decoded value: a number, a bool and \<^verbatim>\<open>None\<close> have no length.
\<close>

fun py_len :: "json \<Rightarrow> error + nat" where
  "py_len (JList xs) = Inr (length xs)"
| "py_len (JObj kvs) = Inr (length kvs)"
| "py_len (JStr s) = Inr (length s)"
| "py_len v = Inl TypeError"

text \<open>
  The function past its guard, where \<^verbatim>\<open>json_data\<close> has at least two elements. Of a
  list, \<^verbatim>\<open>json_data[1:]\<close> is the list without its first element and
  \<^verbatim>\<open>json_data[0]\<close> that element. A dict cannot be sliced (TypeError; KeyError from
  Python 3.12 on, both end the call by an exception), and the slice of a str is a str,
  from which \<^verbatim>\<open>pd.DataFrame\<close> raises ValueError.
\<close>

fun processar_linhas :: "library \<Rightarrow> json \<Rightarrow> error + dataframe" where
  "processar_linhas lb (JList xs) =
     (case xs of
        [] \<Rightarrow> Inl IndexError
      | nomes_colunas # dados_reais \<Rightarrow>
          (case DataFrame_list lb dados_reais of
             Inl e \<Rightarrow> Inl e
           | Inr df \<Rightarrow> df_rename lb df nomes_colunas))"
| "processar_linhas lb (JStr s) = Inl ValueError"
| "processar_linhas lb v = Inl TypeError"

definition processar_dados_numericos :: "library \<Rightarrow> json \<Rightarrow> error + dataframe" where
  "processar_dados_numericos lb json_data =
     (if \<not> truthy json_data then Inr DataFrame_empty
      else (case py_len json_data of
              Inl e \<Rightarrow> Inl e
            | Inr n \<Rightarrow> if n < 2 then Inr DataFrame_empty else processar_linhas lb json_data))"

section \<open>The network, the disk and the printed lines\<close>

text \<open>
  What \<^verbatim>\<open>requests.get(url)\<close>, \<^verbatim>\<open>raise_for_status()\<close> and \<^verbatim>\<open>response.json()\<close>
  come to: a decoded value, a RequestException before the body is read, or a body that
  is not JSON.
\<close>

datatype response = Json json | RequestException | JSONDecodeError

text \<open>The lines the program prints, one constructor for each \<^verbatim>\<open>print\<close> of the source.\<close>

datatype msg =
    Inicio_do_processo
  | Fim_do_processo
  | Etapa1
  | Etapa2
  | Etapa2_nao_executada
  | Buscando string
  | Capturados
  | Erro_de_conexao
  | Erro_json_invalido
  | Arquivo_nao_gerado string
  | Arquivo_salvo string
  | Erro_ao_salvar string
  | Variaveis_lido string
  | Variaveis_nao_encontrado string
  | Buscando_variavel string string
  | Separador

text \<open>
  The state outside of the program: the parquet files on disk (path to table), the URLs
  requested so far, in order, and the lines printed so far, in order.
\<close>

record world =
  files :: "string \<rightharpoonup> dataframe"
  requests :: "string list"
  out :: "msg list"

text \<open>
  The surroundings are parameters: the library behaviour left open above, the answer of
  the network to a URL given the URLs requested before, whether \<^verbatim>\<open>to_parquet\<close>
  succeeds for a path and a table, the text an f-string gives for a value or a cell, and
  whether \<^verbatim>\<open>os.makedirs\<close> succeeds.
\<close>

record env =
  lib :: library
  http_get :: "string list \<Rightarrow> string \<Rightarrow> response"
  to_parquet_ok :: "string \<Rightarrow> dataframe \<Rightarrow> bool"
  py_str :: "json option \<Rightarrow> string"
  makedirs_ok :: bool

definition print :: "msg \<Rightarrow> world \<Rightarrow> world" where
  "print m w = w\<lparr>out := out w @ [m]\<rparr>"

definition URL_IPCA_METADADOs :: string where
  "URL_IPCA_METADADOs = ''https://sidra.ibge.gov.br/Ajax/Json/Tabela/1/1737?versao=-1''"

definition PASTA_SAIDA :: string where
  "PASTA_SAIDA = ''saida_dados''"

text \<open>\<^verbatim>\<open>os.path.join(a, b)\<close> of posixpath.\<close>

definition path_join :: "string \<Rightarrow> string \<Rightarrow> string" where
  "path_join a b =
     (if b \<noteq> [] \<and> hd b = CHR ''/'' then b
      else if a = [] \<or> last a = CHR ''/'' then a @ b
      else a @ ''/'' @ b)"

section \<open>capturar_dados_api\<close>

text \<open>
  The result is the decoded value, or \<^verbatim>\<open>None\<close> (\<open>JNull\<close>) after a caught
  exception. The success line is printed before the body is decoded. The JSONDecodeError
  of requests is a RequestException, so the first handler takes it.
\<close>

definition capturar_dados_api :: "env \<Rightarrow> string \<Rightarrow> world \<Rightarrow> json \<times> world" where
  "capturar_dados_api e url w =
     (let w1 = (print (Buscando url) w)\<lparr>requests := requests w @ [url]\<rparr>
      in case http_get e (requests w) url of
           Json v \<Rightarrow> (v, print Capturados w1)
         | RequestException \<Rightarrow> (JNull, print Erro_de_conexao w1)
         | JSONDecodeError \<Rightarrow> (JNull, print Erro_de_conexao (print Capturados w1)))"

section \<open>gravar_arquivo_parquet\<close>

definition gravar_arquivo_parquet ::
  "env \<Rightarrow> dataframe \<Rightarrow> string \<Rightarrow> string \<Rightarrow> world \<Rightarrow> world" where
  "gravar_arquivo_parquet e df nome_arquivo pasta w =
     (if df_empty df then print (Arquivo_nao_gerado nome_arquivo) w
      else
        (let caminho_completo = path_join pasta nome_arquivo
         in if to_parquet_ok e caminho_completo df
            then print (Arquivo_salvo caminho_completo)
                   (w\<lparr>files := (files w)(caminho_completo \<mapsto> df)\<rparr>)
            else print (Erro_ao_salvar caminho_completo) w))"

section \<open>orquestrar_captura_metadados\<close>

definition tabelas_para_extrair :: "(string \<times> string list) list" where
  "tabelas_para_extrair =
     [(''variaveis.parquet'', [''Variaveis'']),
      (''unidades_de_medida.parquet'', [''UnidadesDeMedida'']),
      (''periodos.parquet'', [''Periodos'', ''Periodos'']),
      (''conjuntos_periodos.parquet'', [''Periodos'', ''Conjuntos'']),
      (''notas.parquet'', [''Notas''])]"

text \<open>The loop over the items of \<^verbatim>\<open>tabelas_para_extrair\<close>; an exception ends it.\<close>

fun extrair_tabelas ::
  "env \<Rightarrow> json \<Rightarrow> (string \<times> string list) list \<Rightarrow> world \<Rightarrow> error + world" where
  "extrair_tabelas e dados_json_meta [] w = Inr w"
| "extrair_tabelas e dados_json_meta ((nome_arquivo, caminho) # resto) w =
     (case extrair_lista_de_metadados (lib e) dados_json_meta caminho of
        Inl err \<Rightarrow> Inl err
      | Inr df_processado \<Rightarrow>
          extrair_tabelas e dados_json_meta resto
            (print Separador (gravar_arquivo_parquet e df_processado nome_arquivo PASTA_SAIDA w)))"

text \<open>The value returned is the document, or \<^verbatim>\<open>None\<close> (\<open>JNull\<close>).\<close>

definition orquestrar_captura_metadados :: "env \<Rightarrow> world \<Rightarrow> error + json \<times> world" where
  "orquestrar_captura_metadados e w =
     (case capturar_dados_api e URL_IPCA_METADADOs (print Etapa1 w) of
        (dados_json_meta, w1) \<Rightarrow>
          if \<not> truthy dados_json_meta then Inr (JNull, w1)
          else (case extrair_tabelas e dados_json_meta tabelas_para_extrair w1 of
                  Inl err \<Rightarrow> Inl err
                | Inr w2 \<Rightarrow> Inr (dados_json_meta, w2)))"

section \<open>orquestrar_captura_dados_numericos\<close>

text \<open>\<^verbatim>\<open>variavel[k]\<close> on a row of the table: KeyError when no column has the label.\<close>

definition row_get :: "json list \<Rightarrow> json option list \<Rightarrow> string \<Rightarrow> error + json option" where
  "row_get cols row k =
     (case map_of (zip cols row) (JStr k) of None \<Rightarrow> Inl KeyError | Some c \<Rightarrow> Inr c)"

definition url_dados :: "env \<Rightarrow> json \<Rightarrow> json option \<Rightarrow> json option \<Rightarrow> string" where
  "url_dados e id_tabela var_id var_decimais =
     ''https://apisidra.ibge.gov.br/values/t/'' @ py_str e (Some id_tabela)
       @ ''/n1/all/v/'' @ py_str e var_id
       @ ''/p/all/d/v'' @ py_str e var_id @ ''%20'' @ py_str e var_decimais"

text \<open>The body of the loop over the rows of the variables table.\<close>

definition capturar_variavel ::
  "env \<Rightarrow> json \<Rightarrow> json list \<Rightarrow> json option list \<Rightarrow> world \<Rightarrow> error + world" where
  "capturar_variavel e id_tabela cols variavel w =
     (case row_get cols variavel ''Id'' of
        Inl err \<Rightarrow> Inl err
      | Inr var_id \<Rightarrow>
     (case row_get cols variavel ''DecimaisApresentacao'' of
        Inl err \<Rightarrow> Inl err
      | Inr var_decimais \<Rightarrow>
     (case row_get cols variavel ''Nome'' of
        Inl err \<Rightarrow> Inl err
      | Inr var_nome \<Rightarrow>
     (case capturar_dados_api e (url_dados e id_tabela var_id var_decimais)
             (print (Buscando_variavel (py_str e var_nome) (py_str e var_id)) w) of
        (dados_numericos_json, w1) \<Rightarrow>
          if truthy dados_numericos_json then
            (case processar_dados_numericos (lib e) dados_numericos_json of
               Inl err \<Rightarrow> Inl err
             | Inr df_dados_numericos \<Rightarrow>
                 Inr (print Separador
                        (gravar_arquivo_parquet e df_dados_numericos
                           (''dados_numericos_'' @ py_str e var_id @ ''.parquet'')
                           PASTA_SAIDA w1)))
          else Inr (print Separador w1)))))"

fun laco_variaveis ::
  "env \<Rightarrow> json \<Rightarrow> json list \<Rightarrow> json option list list \<Rightarrow> world \<Rightarrow> error + world" where
  "laco_variaveis e id_tabela cols [] w = Inr w"
| "laco_variaveis e id_tabela cols (variavel # resto) w =
     (case capturar_variavel e id_tabela cols variavel w of
        Inl err \<Rightarrow> Inl err
      | Inr w1 \<Rightarrow> laco_variaveis e id_tabela cols resto w1)"

text \<open>
  \<^verbatim>\<open>pd.read_parquet\<close> gives back the table written at the path and raises
  FileNotFoundError, which the function catches, when there is no file.
\<close>

definition orquestrar_captura_dados_numericos :: "env \<Rightarrow> json \<Rightarrow> world \<Rightarrow> error + world" where
  "orquestrar_captura_dados_numericos e dados_metadados w =
     (let w0 = print Etapa2 w;
          caminho_variaveis = path_join PASTA_SAIDA ''variaveis.parquet''
      in case files w0 caminho_variaveis of
           None \<Rightarrow> Inr (print (Variaveis_nao_encontrado caminho_variaveis) w0)
         | Some df_variaveis \<Rightarrow>
             (let w1 = print (Variaveis_lido caminho_variaveis) w0
              in case dados_metadados of
                   JObj kvs \<Rightarrow>
                     laco_variaveis e (dict_get_default kvs ''Id'' (JStr ''1737''))
                       (columns df_variaveis) (rows df_variaveis) w1
                 | _ \<Rightarrow> Inl AttributeError))"

section \<open>main\<close>

definition main :: "env \<Rightarrow> world \<Rightarrow> error + world" where
  "main e w =
     (if \<not> makedirs_ok e then Inl OSError
      else (case orquestrar_captura_metadados e (print Inicio_do_processo w) of
              Inl err \<Rightarrow> Inl err
            | Inr (metadados, w1) \<Rightarrow>
                if truthy metadados then
                  (case orquestrar_captura_dados_numericos e metadados w1 of
                     Inl err \<Rightarrow> Inl err
                   | Inr w2 \<Rightarrow> Inr (print Fim_do_processo w2))
                else Inr (print Fim_do_processo (print Etapa2_nao_executada w1))))"

section \<open>Vocabulary of the specification\<close>

text \<open>
  The value a key path leads to in a document, read as the specification reads it: each
  key is looked up in the mapping reached so far, and there is no value when a key is
  absent or when the value reached is not a mapping.
\<close>

fun valor_no_caminho :: "json \<Rightarrow> string list \<Rightarrow> json option" where
  "valor_no_caminho v [] = Some v"
| "valor_no_caminho v (k # ks) =
     (case v of
        JObj kvs \<Rightarrow> (case map_of kvs k of None \<Rightarrow> None | Some v' \<Rightarrow> valor_no_caminho v' ks)
      | _ \<Rightarrow> None)"

text \<open>
  The keys of a list of mappings, one after the other, and the first-seen order of a list
  of keys: each key once, at the place of its first occurrence.
\<close>

definition chaves :: "json list \<Rightarrow> string list" where
  "chaves data = concat (map (\<lambda>d. map fst (items d)) data)"

fun primeira_vez :: "string list \<Rightarrow> string list" where
  "primeira_vez [] = []"
| "primeira_vez (k # ks) = k # filter (\<lambda>x. x \<noteq> k) (primeira_vez ks)"

text \<open>
  The column name as the specification words it: one trailing \<open>s\<close> removed, the first
  character capitalized, the rest untouched.
\<close>

definition spec_nome_coluna :: "string \<Rightarrow> string" where
  "spec_nome_coluna k =
     (let t = (if k \<noteq> [] \<and> last k = CHR ''s'' then butlast k else k)
      in case t of [] \<Rightarrow> [] | c # cs \<Rightarrow> upper_char c # cs)"

text \<open>
  The cell of a row under a label (missing when no column has the label), and the URL the
  loop of \<^verbatim>\<open>orquestrar_captura_dados_numericos\<close> requests for a row.
\<close>

definition celula :: "json list \<Rightarrow> json option list \<Rightarrow> string \<Rightarrow> json option" where
  "celula cols row k = (case map_of (zip cols row) (JStr k) of None \<Rightarrow> None | Some c \<Rightarrow> c)"

definition url_linha :: "env \<Rightarrow> json \<Rightarrow> json list \<Rightarrow> json option list \<Rightarrow> string" where
  "url_linha e id_tabela cols row =
     url_dados e id_tabela (celula cols row ''Id'') (celula cols row ''DecimaisApresentacao'')"

text \<open>
  A fetch that fails, or whose envelope is empty: a list of fewer than two elements, or a
  value that is false in Python.
\<close>

fun envelope_vazio :: "json \<Rightarrow> bool" where
  "envelope_vazio (JList xs) = (length xs < 2)"
| "envelope_vazio v = (\<not> truthy v)"

fun sem_dados :: "response \<Rightarrow> bool" where
  "sem_dados (Json v) = envelope_vazio v"
| "sem_dados r = True"

text \<open>
  The world after the loop has passed over a variable with no data: the URL of the row
  is one more request, the files are as they were, and the lines printed are the two
  search lines, the lines of the fetch (with the line of the file not generated when
  the envelope is a list of one element) and the separator. \<open>pular_variaveis\<close> does
  this for the rows of a list, in order.
\<close>

definition linhas_sem_dados :: "response \<Rightarrow> string \<Rightarrow> msg list" where
  "linhas_sem_dados r nome_arquivo =
     (case r of
        Json v \<Rightarrow> Capturados # (if truthy v then [Arquivo_nao_gerado nome_arquivo] else [])
      | RequestException \<Rightarrow> [Erro_de_conexao]
      | JSONDecodeError \<Rightarrow> [Capturados, Erro_de_conexao])"

definition pular_variavel ::
  "env \<Rightarrow> json \<Rightarrow> json list \<Rightarrow> json option list \<Rightarrow> world \<Rightarrow> world" where
  "pular_variavel e id_tabela cols row w =
     w\<lparr>requests := requests w @ [url_linha e id_tabela cols row],
       out := out w
         @ [Buscando_variavel (py_str e (celula cols row ''Nome''))
              (py_str e (celula cols row ''Id'')),
            Buscando (url_linha e id_tabela cols row)]
         @ linhas_sem_dados (http_get e (requests w) (url_linha e id_tabela cols row))
             (''dados_numericos_'' @ py_str e (celula cols row ''Id'') @ ''.parquet'')
         @ [Separador]\<rparr>"

fun pular_variaveis ::
  "env \<Rightarrow> json \<Rightarrow> json list \<Rightarrow> json option list list \<Rightarrow> world \<Rightarrow> world" where
  "pular_variaveis e id_tabela cols [] w = w"
| "pular_variaveis e id_tabela cols (row # resto) w =
     pular_variaveis e id_tabela cols resto (pular_variavel e id_tabela cols row w)"

section \<open>Values for the examples\<close>

text \<open>
  Libraries that raise, or leave a string as it is, outside of the modelled cases,
  surroundings built around a given
  network, and a world with no file, no request and no line printed.
\<close>

definition library_stub :: library where
  "library_stub =
     \<lparr>frame_other = (\<lambda>data. Inl ValueError), rename_other = (\<lambda>df m. Inl TypeError),
      capitalize_other = (\<lambda>s. s)\<rparr>"

definition env_stub :: "(string list \<Rightarrow> string \<Rightarrow> response) \<Rightarrow> env" where
  "env_stub net =
     \<lparr>lib = library_stub, http_get = net, to_parquet_ok = (\<lambda>caminho df. True),
      py_str = (\<lambda>c. case c of Some (JStr s) \<Rightarrow> s | _ \<Rightarrow> ''None''),
      makedirs_ok = True\<rparr>"

definition world_vazio :: world where
  "world_vazio = \<lparr>files = Map.empty, requests = [], out = []\<rparr>"

text \<open>
  A table of variables, a metadata document with one variable, and a network that
  answers the first request with that document and fails afterwards.
\<close>

definition colunas_ex :: "json list" where
  "colunas_ex = [JStr ''Id'', JStr ''Nome'', JStr ''DecimaisApresentacao'']"

definition documento_ex :: json where
  "documento_ex =
     JObj [(''Id'', JStr ''7060''),
           (''Variaveis'',
            JList [JObj [(''Id'', JStr ''63''), (''Nome'', JStr ''IPCA''),
                         (''DecimaisApresentacao'', JStr ''2'')]])]"

text \<open>
  A network for the loop over two variables: the first request fails, every later one
  is answered with an envelope of one row.
\<close>

definition rede_series_ex :: "string list \<Rightarrow> string \<Rightarrow> response" where
  "rede_series_ex anteriores url =
     (if anteriores = [] then RequestException
      else Json (JList [JObj [(''V'', JStr ''Valor'')], JObj [(''V'', JStr ''0.5'')]]))"

definition rede_ex :: "string list \<Rightarrow> string \<Rightarrow> response" where
  "rede_ex anteriores url = (if anteriores = [] then Json documento_ex else RequestException)"

section \<open>The walk along the key path\<close>

lemma valor_percorrer:
  "valor_no_caminho d ks = Some v \<Longrightarrow> v \<noteq> JNull \<Longrightarrow> percorrer_caminho d ks = Inr (Some v)"
proof (induction ks arbitrary: d)
  case Nil
  then show ?case by simp
next
  case (Cons k ks)
  from Cons.prems(1) obtain kvs v' where d: "d = JObj kvs" and k: "map_of kvs k = Some v'"
    and v': "valor_no_caminho v' ks = Some v"
    by (auto split: json.splits option.splits)
  have "v' \<noteq> JNull"
  proof
    assume "v' = JNull"
    with v' Cons.prems(2) show False by (cases ks) auto
  qed
  with d k v' Cons.IH[OF v' Cons.prems(2)] show ?case
    by (simp add: dict_get_def)
qed

lemma extrair_nao_dict:
  "\<not> is_dict d \<Longrightarrow> extrair_lista_de_metadados lb d (k # ks) = Inl AttributeError"
  by (cases d) (simp_all add: extrair_lista_de_metadados_def)

text \<open>
  C1. The claim: when a lookup along the path misses, because the key is absent or
  because the value reached is not a mapping and the path goes on, the function returns
  the empty table and never raises. The code returns the empty table for an absent key
  and for a null value only; on a value that is a list, a string, a number or a bool it
  calls \<^verbatim>\<open>get\<close> and raises AttributeError. Here the document is
  \<^verbatim>\<open>{"Periodos": ["2020"]}\<close> and the path \<^verbatim>\<open>["Periodos", "Periodos"]\<close>.
\<close>

theorem extrair_valor_nao_dict_levanta:
  "extrair_lista_de_metadados lb (JObj [(''Periodos'', JList [JStr ''2020''])])
     [''Periodos'', ''Periodos''] = Inl AttributeError"
  by (simp add: extrair_lista_de_metadados_def dict_get_def)

section \<open>The column of a list of strings\<close>

lemma str_replace_s: "str_replace s CHR ''s'' [] = filter (\<lambda>c. c \<noteq> CHR ''s'') s"
  by (induction s) (simp_all add: str_replace_def)

text \<open>
  C2, as the code has it. For a non-empty key path that leads to a non-empty list of
  strings, the result is a table of one column; its name is what \<^verbatim>\<open>capitalize\<close>
  makes of the last key of the path with every character \<open>s\<close> removed, which for a
  key of ASCII characters is that string with the first character in upper case and
  all the others in lower case; its rows are the elements of the list in order.
\<close>

theorem extrair_lista_de_strings:
  assumes "caminho_chaves \<noteq> []"
    and "valor_no_caminho dados_json caminho_chaves = Some (JList xs)"
    and "xs \<noteq> []" and "list_all is_str xs"
  shows "extrair_lista_de_metadados lb dados_json caminho_chaves =
           Inr \<lparr>columns =
                  [JStr (capitalize lb
                           (filter (\<lambda>c. c \<noteq> CHR ''s'') (last caminho_chaves)))],
                rows = map (\<lambda>x. [Some x]) xs\<rparr>"
proof -
  have "percorrer_caminho dados_json caminho_chaves = Inr (Some (JList xs))"
    using assms(2) by (rule valor_percorrer) simp
  then show ?thesis using assms(1,3,4)
    by (simp add: extrair_lista_de_metadados_def ultima_chave_def DataFrame_column_def
        str_replace_s)
qed

theorem extrair_lista_de_strings_witness:
  "extrair_lista_de_metadados library_stub
     (JObj [(''Periodos'', JObj [(''Periodos'', JList [JStr ''202001'', JStr ''202002''])])])
     [''Periodos'', ''Periodos'']
   = Inr \<lparr>columns = [JStr ''Periodo''],
          rows = [[Some (JStr ''202001'')], [Some (JStr ''202002'')]]\<rparr>"
proof -
  have "capitalize library_stub (filter (\<lambda>c. c \<noteq> CHR ''s'') ''Periodos'') = ''Periodo''"
    by code_simp
  then show ?thesis
    using extrair_lista_de_strings[of "[''Periodos'', ''Periodos'']"
        "JObj [(''Periodos'', JObj [(''Periodos'', JList [JStr ''202001'', JStr ''202002''])])]"
        "[JStr ''202001'', JStr ''202002'']" library_stub]
    by simp
qed

text \<open>
  C2 as the specification states it fails on a key with an \<open>s\<close> inside: for the
  document \<^verbatim>\<open>{"Paises": ["Brasil"]}\<close> and the path \<^verbatim>\<open>["Paises"]\<close> the
  specification's column is \<^verbatim>\<open>Paise\<close>, the code's is \<^verbatim>\<open>Paie\<close>.
\<close>

theorem extrair_nome_coluna_contraexemplo:
  "extrair_lista_de_metadados library_stub (JObj [(''Paises'', JList [JStr ''Brasil''])])
     [''Paises'']
   \<noteq> Inr (DataFrame_column [JStr ''Brasil''] (spec_nome_coluna (last [''Paises''])))"
  by code_simp

section \<open>The columns of a list of mappings\<close>

lemma set_primeira_vez: "set (primeira_vez ks) = set ks"
  by (induction ks) auto

lemma distinct_primeira_vez: "distinct (primeira_vez ks)"
  by (induction ks) (auto simp: set_primeira_vez)

lemma filter_primeira_vez: "filter P (primeira_vez ks) = primeira_vez (filter P ks)"
proof (induction ks)
  case Nil
  then show ?case by simp
next
  case (Cons k ks)
  have swap: "filter P (filter (\<lambda>x. x \<noteq> k) (primeira_vez ks))
      = filter (\<lambda>x. x \<noteq> k) (primeira_vez (filter P ks))"
  proof -
    have "filter P (filter (\<lambda>x. x \<noteq> k) (primeira_vez ks))
        = filter (\<lambda>x. x \<noteq> k) (filter P (primeira_vez ks))"
      by (auto intro: filter_cong)
    then show ?thesis by (simp only: Cons.IH)
  qed
  show ?case
  proof (cases "P k")
    case True
    with swap show ?thesis by simp
  next
    case False
    then have "k \<notin> set (primeira_vez (filter P ks))"
      by (simp add: set_primeira_vez)
    then have "filter (\<lambda>x. x \<noteq> k) (primeira_vez (filter P ks)) = primeira_vez (filter P ks)"
      by (auto simp: filter_id_conv)
    with False swap show ?thesis by simp
  qed
qed

lemma fold_add_unique:
  "fold add_unique ks seen = seen @ primeira_vez (filter (\<lambda>k. k \<notin> set seen) ks)"
proof (induction ks arbitrary: seen)
  case Nil
  then show ?case by simp
next
  case (Cons k ks)
  show ?case
  proof (cases "k \<in> set seen")
    case True
    then show ?thesis using Cons.IH[of seen] by (simp add: add_unique_def)
  next
    case False
    have "filter (\<lambda>x. x \<notin> set (seen @ [k])) ks
        = filter (\<lambda>x. x \<noteq> k) (filter (\<lambda>x. x \<notin> set seen) ks)"
      by (auto intro: filter_cong)
    with False show ?thesis using Cons.IH[of "seen @ [k]"]
      by (simp add: add_unique_def filter_primeira_vez)
  qed
qed

lemma fold_fold_add_unique:
  "fold (\<lambda>d seen. fold add_unique (map fst (items d)) seen) data seen
     = fold add_unique (chaves data) seen"
  by (induction data arbitrary: seen) (simp_all add: chaves_def)

lemma unique_keys_primeira_vez: "unique_keys data = primeira_vez (chaves data)"
  unfolding unique_keys_def fold_fold_add_unique by (simp add: fold_add_unique)

lemma not_all_str: "xs \<noteq> [] \<Longrightarrow> list_all is_dict xs \<Longrightarrow> \<not> list_all is_str xs"
  by (cases xs; cases "hd xs") auto

text \<open>
  C4. For a key path that leads to a non-empty list of mappings, the result has one
  column for each key of the mappings, in first-seen order, and one row for each
  mapping, in order, where the cell of a key is the value the mapping has for it, or
  missing when the mapping does not have the key.
\<close>

theorem extrair_lista_de_dicts:
  assumes "valor_no_caminho dados_json caminho_chaves = Some (JList xs)"
    and "xs \<noteq> []" and "list_all is_dict xs"
  shows "extrair_lista_de_metadados lb dados_json caminho_chaves =
           Inr \<lparr>columns = map JStr (primeira_vez (chaves xs)),
                rows = map (\<lambda>d. map (map_of (items d)) (primeira_vez (chaves xs))) xs\<rparr>"
proof -
  have "percorrer_caminho dados_json caminho_chaves = Inr (Some (JList xs))"
    using assms(1) by (rule valor_percorrer) simp
  moreover have "\<not> list_all is_str xs" using assms(2,3) by (rule not_all_str)
  ultimately show ?thesis using assms(2,3)
    by (simp add: extrair_lista_de_metadados_def DataFrame_list_def DataFrame_dicts_def
        unique_keys_primeira_vez Let_def)
qed

theorem extrair_lista_de_dicts_witness:
  "extrair_lista_de_metadados library_stub
     (JObj [(''A'', JList [JObj [(''Id'', JInt 1), (''Nome'', JStr ''foo'')],
                           JObj [(''Nome'', JStr ''bar''), (''Z'', JInt 2)]])])
     [''A'']
   = Inr \<lparr>columns = [JStr ''Id'', JStr ''Nome'', JStr ''Z''],
          rows = [[Some (JInt 1), Some (JStr ''foo''), None],
                  [None, Some (JStr ''bar''), Some (JInt 2)]]\<rparr>"
  using extrair_lista_de_dicts[of
      "JObj [(''A'', JList [JObj [(''Id'', JInt 1), (''Nome'', JStr ''foo'')],
                            JObj [(''Nome'', JStr ''bar''), (''Z'', JInt 2)]])]"
      "[''A'']"
      "[JObj [(''Id'', JInt 1), (''Nome'', JStr ''foo'')],
        JObj [(''Nome'', JStr ''bar''), (''Z'', JInt 2)]]"
      library_stub]
  by (simp add: chaves_def)

section \<open>The table of a series envelope\<close>

lemma processar_curto:
  "length xs < 2 \<Longrightarrow> processar_dados_numericos lb (JList xs) = Inr DataFrame_empty"
  by (simp add: processar_dados_numericos_def)

text \<open>
  C7. An envelope of fewer than two elements, the empty one and the one that holds only
  the mapping of column names among them, gives the empty table.
\<close>

theorem processar_envelope_curto:
  "length xs < 2 \<Longrightarrow> processar_dados_numericos lb (JList xs) = Inr DataFrame_empty"
  by (rule processar_curto)

theorem processar_envelope_curto_witness:
  "processar_dados_numericos library_stub (JList []) = Inr DataFrame_empty
   \<and> processar_dados_numericos library_stub (JList [JObj [(''a'', JStr ''ColA'')]])
       = Inr DataFrame_empty"
  using processar_envelope_curto[of "[]" library_stub]
    processar_envelope_curto[of "[JObj [(''a'', JStr ''ColA'')]]" library_stub]
  by simp

text \<open>
  C3, as the code has it. For an envelope of a mapping of names followed by at least one
  row, all rows mappings: the columns are the raw identifiers of the rows in first-seen
  order, each replaced by its display name when element 0 has the identifier and left as
  it is otherwise; the rows are the elements 1..N in order, the cell of an identifier
  being the value the row has for it, or missing when the row does not have it.
\<close>

theorem processar_colunas_renomeadas:
  assumes "linhas \<noteq> []" and "list_all is_dict linhas"
  shows "processar_dados_numericos lb (JList (JObj nomes # linhas)) =
           Inr \<lparr>columns = map (\<lambda>k. rename_label nomes (JStr k)) (primeira_vez (chaves linhas)),
                rows = map (\<lambda>d. map (map_of (items d)) (primeira_vez (chaves linhas))) linhas\<rparr>"
  using assms
  by (cases linhas)
    (simp_all add: processar_dados_numericos_def DataFrame_list_def DataFrame_dicts_def
      unique_keys_primeira_vez df_rename_def comp_def Let_def)

theorem processar_colunas_renomeadas_witness:
  "processar_dados_numericos library_stub
     (JList [JObj [(''a'', JStr ''ColA''), (''b'', JStr ''ColB'')],
             JObj [(''a'', JStr ''1''), (''c'', JStr ''2'')],
             JObj [(''b'', JStr ''4'')]])
   = Inr \<lparr>columns = [JStr ''ColA'', JStr ''c'', JStr ''ColB''],
          rows = [[Some (JStr ''1''), Some (JStr ''2''), None],
                  [None, None, Some (JStr ''4'')]]\<rparr>"
  using processar_colunas_renomeadas[of
      "[JObj [(''a'', JStr ''1''), (''c'', JStr ''2'')], JObj [(''b'', JStr ''4'')]]"
      library_stub "[(''a'', JStr ''ColA''), (''b'', JStr ''ColB'')]"]
  by (simp add: chaves_def)

text \<open>
  C3 as the specification states it fails when a row lacks an identifier of element 0 in
  every row: for \<^verbatim>\<open>[{"a": "ColA", "b": "ColB"}, {"a": "1"}]\<close> the table has the one
  column \<^verbatim>\<open>ColA\<close>, which is not the set of display names of element 0.
\<close>

theorem processar_colunas_contraexemplo:
  "processar_dados_numericos library_stub
     (JList [JObj [(''a'', JStr ''ColA''), (''b'', JStr ''ColB'')], JObj [(''a'', JStr ''1'')]])
   = Inr \<lparr>columns = [JStr ''ColA''], rows = [[Some (JStr ''1'')]]\<rparr>
   \<and> set [JStr ''ColA''] \<noteq> set (map snd [(''a'', JStr ''ColA''), (''b'', JStr ''ColB'')])"
  by (simp add: processar_dados_numericos_def DataFrame_list_def DataFrame_dicts_def
      unique_keys_def add_unique_def df_rename_def)

section \<open>Writing a table\<close>

lemma gravar_vazio:
  "df_empty df \<Longrightarrow>
     gravar_arquivo_parquet e df nome_arquivo pasta w = print (Arquivo_nao_gerado nome_arquivo) w"
  by (simp add: gravar_arquivo_parquet_def)

text \<open>
  C8. For an empty table, whatever the file name and the directory,
  \<^verbatim>\<open>gravar_arquivo_parquet\<close> writes no file and leaves the files as they were; it
  prints the line that says the file was not generated and returns without an
  exception.
\<close>

theorem gravar_tabela_vazia:
  assumes "df_empty df"
  shows "files (gravar_arquivo_parquet e df nome_arquivo pasta w) = files w
       \<and> requests (gravar_arquivo_parquet e df nome_arquivo pasta w) = requests w
       \<and> out (gravar_arquivo_parquet e df nome_arquivo pasta w)
           = out w @ [Arquivo_nao_gerado nome_arquivo]"
  using assms by (simp add: gravar_vazio print_def)

theorem gravar_tabela_vazia_witness:
  "files (gravar_arquivo_parquet (env_stub (\<lambda>h u. RequestException)) DataFrame_empty
            ''notas.parquet'' ''/sem/pasta'' world_vazio) = Map.empty
   \<and> out (gravar_arquivo_parquet (env_stub (\<lambda>h u. RequestException)) DataFrame_empty
            ''notas.parquet'' ''/sem/pasta'' world_vazio)
       = [Arquivo_nao_gerado ''notas.parquet'']"
  using gravar_tabela_vazia[of DataFrame_empty "env_stub (\<lambda>h u. RequestException)"
      "''notas.parquet''" "''/sem/pasta''" world_vazio]
  by (simp add: df_empty_def DataFrame_empty_def world_vazio_def)

section \<open>The loop over the variables\<close>

lemma row_get_celula:
  "JStr k \<in> set cols \<Longrightarrow> length row = length cols \<Longrightarrow> row_get cols row k = Inr (celula cols row k)"
proof -
  assume "JStr k \<in> set cols" and "length row = length cols"
  then obtain c where "map_of (zip cols row) (JStr k) = Some c"
    using map_of_zip_is_Some[of cols row "JStr k"] by auto
  then show ?thesis by (simp add: row_get_def celula_def)
qed

lemma envelope_vazio_truthy:
  "envelope_vazio v \<Longrightarrow> truthy v \<Longrightarrow> \<exists>xs. v = JList xs \<and> length xs < 2"
  by (cases v) auto

lemma capturar_variavel_sem_dados:
  assumes id: "JStr ''Id'' \<in> set cols" and dec: "JStr ''DecimaisApresentacao'' \<in> set cols"
    and nome: "JStr ''Nome'' \<in> set cols" and len: "length row = length cols"
    and sd: "sem_dados (http_get e (requests w) (url_linha e id_tabela cols row))"
  shows "capturar_variavel e id_tabela cols row w = Inr (pular_variavel e id_tabela cols row w)"
proof -
  have vazio: "df_empty DataFrame_empty"
    by (simp add: df_empty_def DataFrame_empty_def)
  note linha = row_get_celula[OF id len] row_get_celula[OF dec len] row_get_celula[OF nome len]
  show ?thesis
  proof (cases "http_get e (requests w) (url_linha e id_tabela cols row)")
    case (Json v)
    show ?thesis
    proof (cases "truthy v")
      case True
      with sd Json obtain xs where "v = JList xs" "length xs < 2"
        using envelope_vazio_truthy[of v] by auto
      with Json True vazio show ?thesis
        by (simp add: capturar_variavel_def linha url_linha_def capturar_dados_api_def
            print_def Let_def processar_curto gravar_vazio pular_variavel_def
            linhas_sem_dados_def)
    next
      case False
      with Json show ?thesis
        by (simp add: capturar_variavel_def linha url_linha_def capturar_dados_api_def
            print_def Let_def pular_variavel_def linhas_sem_dados_def)
    qed
  next
    case RequestException
    then show ?thesis
      by (simp add: capturar_variavel_def linha url_linha_def capturar_dados_api_def
          print_def Let_def pular_variavel_def linhas_sem_dados_def)
  next
    case JSONDecodeError
    then show ?thesis
      by (simp add: capturar_variavel_def linha url_linha_def capturar_dados_api_def
          print_def Let_def pular_variavel_def linhas_sem_dados_def)
  qed
qed

lemma files_pular_variavel: "files (pular_variavel e id_tabela cols row w) = files w"
  by (simp add: pular_variavel_def)

lemma requests_pular_variavel:
  "requests (pular_variavel e id_tabela cols row w) = requests w @ [url_linha e id_tabela cols row]"
  by (simp add: pular_variavel_def)

text \<open>
  C5. The loop takes the rows of the variables table in order, and a variable whose fetch
  fails or whose envelope is empty does not end it. For rows \<open>ps\<close> whose fetches all
  fail or give an empty envelope: the loop over \<open>ps\<close> returns, without an exception,
  the world \<open>pular_variaveis\<close> describes, in which the URLs of \<open>ps\<close> have been
  requested one after the other in the order of the rows and no file has changed; and
  for any rows \<open>resto\<close> after them, the loop over \<open>ps @ resto\<close> goes on to the
  loop over \<open>resto\<close> from that world. The table has the three columns the loop
  reads.
\<close>

theorem laco_variaveis_continua_apos_falha:
  assumes id: "JStr ''Id'' \<in> set cols" and dec: "JStr ''DecimaisApresentacao'' \<in> set cols"
    and nome: "JStr ''Nome'' \<in> set cols"
    and len: "\<forall>row \<in> set ps. length row = length cols"
    and sd: "\<forall>i < length ps. sem_dados (http_get e
               (requests w @ map (url_linha e id_tabela cols) (take i ps))
               (url_linha e id_tabela cols (ps ! i)))"
  shows "laco_variaveis e id_tabela cols ps w = Inr (pular_variaveis e id_tabela cols ps w)
       \<and> laco_variaveis e id_tabela cols (ps @ resto) w
           = laco_variaveis e id_tabela cols resto (pular_variaveis e id_tabela cols ps w)
       \<and> files (pular_variaveis e id_tabela cols ps w) = files w
       \<and> requests (pular_variaveis e id_tabela cols ps w)
           = requests w @ map (url_linha e id_tabela cols) ps"
  using len sd
proof (induction ps arbitrary: w)
  case Nil
  show ?case by simp
next
  case (Cons p ps)
  let ?w1 = "pular_variavel e id_tabela cols p w"
  have sp: "sem_dados (http_get e (requests w) (url_linha e id_tabela cols p))"
    using Cons.prems(2)[rule_format, of 0] by simp
  have lp: "length p = length cols" using Cons.prems(1) by simp
  have passo: "capturar_variavel e id_tabela cols p w = Inr ?w1"
    by (rule capturar_variavel_sem_dados[OF id dec nome lp sp])
  have a: "\<forall>row \<in> set ps. length row = length cols" using Cons.prems(1) by simp
  have b: "\<forall>i < length ps. sem_dados (http_get e
               (requests ?w1 @ map (url_linha e id_tabela cols) (take i ps))
               (url_linha e id_tabela cols (ps ! i)))"
  proof (intro allI impI)
    fix i assume "i < length ps"
    then show "sem_dados (http_get e
               (requests ?w1 @ map (url_linha e id_tabela cols) (take i ps))
               (url_linha e id_tabela cols (ps ! i)))"
      using Cons.prems(2)[rule_format, of "Suc i"] by (simp add: requests_pular_variavel)
  qed
  from Cons.IH[OF a b] passo show ?case
    by (simp add: files_pular_variavel requests_pular_variavel)
qed

theorem laco_variaveis_continua_apos_falha_witness:
  "laco_variaveis (env_stub rede_series_ex) (JStr ''1737'') colunas_ex
     [[Some (JStr ''63''), Some (JStr ''IPCA''), Some (JStr ''2'')]] world_vazio
   = Inr \<lparr>files = Map.empty,
          requests = [''https://apisidra.ibge.gov.br/values/t/1737/n1/all/v/63/p/all/d/v63%202''],
          out = [Buscando_variavel ''IPCA'' ''63'',
                 Buscando ''https://apisidra.ibge.gov.br/values/t/1737/n1/all/v/63/p/all/d/v63%202'',
                 Erro_de_conexao, Separador]\<rparr>
   \<and> map_sum id requests
       (laco_variaveis (env_stub rede_series_ex) (JStr ''1737'') colunas_ex
          ([[Some (JStr ''63''), Some (JStr ''IPCA''), Some (JStr ''2'')]]
             @ [[Some (JStr ''69''), Some (JStr ''IPCA 3m''), Some (JStr ''2'')]]) world_vazio)
     = Inr [''https://apisidra.ibge.gov.br/values/t/1737/n1/all/v/63/p/all/d/v63%202'',
            ''https://apisidra.ibge.gov.br/values/t/1737/n1/all/v/69/p/all/d/v69%202'']
   \<and> map_sum id (\<lambda>w. files w ''saida_dados/dados_numericos_69.parquet'')
       (laco_variaveis (env_stub rede_series_ex) (JStr ''1737'') colunas_ex
          ([[Some (JStr ''63''), Some (JStr ''IPCA''), Some (JStr ''2'')]]
             @ [[Some (JStr ''69''), Some (JStr ''IPCA 3m''), Some (JStr ''2'')]]) world_vazio)
     = Inr (Some \<lparr>columns = [JStr ''Valor''], rows = [[Some (JStr ''0.5'')]]\<rparr>)"
  using laco_variaveis_continua_apos_falha[of colunas_ex
      "[[Some (JStr ''63''), Some (JStr ''IPCA''), Some (JStr ''2'')]]"
      "env_stub rede_series_ex" world_vazio "JStr ''1737''"
      "[[Some (JStr ''69''), Some (JStr ''IPCA 3m''), Some (JStr ''2'')]]"]
  by (simp add: colunas_ex_def world_vazio_def env_stub_def rede_series_ex_def url_linha_def
      celula_def url_dados_def pular_variavel_def linhas_sem_dados_def capturar_variavel_def
      row_get_def capturar_dados_api_def print_def Let_def processar_dados_numericos_def
      DataFrame_list_def DataFrame_dicts_def unique_keys_def add_unique_def df_rename_def
      library_stub_def gravar_arquivo_parquet_def df_empty_def path_join_def PASTA_SAIDA_def)

section \<open>The two stages\<close>

lemma files_print: "files (print m w) = files w"
  by (simp add: print_def)

lemma metadados_retorno:
  assumes "orquestrar_captura_metadados e w = Inr (m, w1)"
  shows "m = JNull \<or> (\<exists>kvs. m = JObj kvs \<and> kvs \<noteq> [])"
proof -
  obtain d w0 where cap: "capturar_dados_api e URL_IPCA_METADADOs (print Etapa1 w) = (d, w0)"
    by (cases "capturar_dados_api e URL_IPCA_METADADOs (print Etapa1 w)")
  show ?thesis
  proof (cases "truthy d")
    case False
    with assms cap show ?thesis by (simp add: orquestrar_captura_metadados_def)
  next
    case True
    with assms cap have m: "m = d" and ok: "extrair_tabelas e d tabelas_para_extrair w0 = Inr w1"
      by (auto simp: orquestrar_captura_metadados_def split: sum.splits)
    have "is_dict d"
    proof (rule ccontr)
      assume "\<not> is_dict d"
      then have "extrair_lista_de_metadados (lib e) d [''Variaveis''] = Inl AttributeError"
        by (rule extrair_nao_dict)
      with ok show False by (simp add: tabelas_para_extrair_def)
    qed
    with True m show ?thesis by (cases d) auto
  qed
qed

text \<open>
  C6. \<^verbatim>\<open>main\<close> runs the second stage exactly when the first returns a document.
  When the first stage returns \<^verbatim>\<open>None\<close>, \<^verbatim>\<open>main\<close> prints that the second
  stage cannot run and ends, with no other change to the world. Otherwise the value
  returned is a dict and \<^verbatim>\<open>main\<close> runs the second stage on it: when the variables
  file is there, its loop runs with the \<^verbatim>\<open>Id\<close> of the document as the table
  identifier, or with \<^verbatim>\<open>1737\<close> when the document has no such key.
\<close>

theorem main_etapa2_sse_metadados:
  assumes mk: "makedirs_ok e"
    and m: "orquestrar_captura_metadados e (print Inicio_do_processo w) = Inr (metadados, w1)"
  shows "(metadados = JNull
          \<and> main e w = Inr (print Fim_do_processo (print Etapa2_nao_executada w1)))
       \<or> (\<exists>kvs. metadados = JObj kvs
          \<and> main e w =
             (case files w1 (path_join PASTA_SAIDA ''variaveis.parquet'') of
                None \<Rightarrow>
                  Inr (print Fim_do_processo
                        (print (Variaveis_nao_encontrado (path_join PASTA_SAIDA ''variaveis.parquet''))
                          (print Etapa2 w1)))
              | Some df \<Rightarrow>
                  (case laco_variaveis e
                          (case map_of kvs ''Id'' of None \<Rightarrow> JStr ''1737'' | Some v \<Rightarrow> v)
                          (columns df) (rows df)
                          (print (Variaveis_lido (path_join PASTA_SAIDA ''variaveis.parquet''))
                            (print Etapa2 w1)) of
                     Inl err \<Rightarrow> Inl err
                   | Inr w2 \<Rightarrow> Inr (print Fim_do_processo w2))))"
proof -
  have main_eq: "main e w =
      (if truthy metadados then
         (case orquestrar_captura_dados_numericos e metadados w1 of
            Inl err \<Rightarrow> Inl err
          | Inr w2 \<Rightarrow> Inr (print Fim_do_processo w2))
       else Inr (print Fim_do_processo (print Etapa2_nao_executada w1)))"
    using mk m by (simp add: main_def)
  from metadados_retorno[OF m] show ?thesis
  proof
    assume "metadados = JNull"
    with main_eq show ?thesis by simp
  next
    assume "\<exists>kvs. metadados = JObj kvs \<and> kvs \<noteq> []"
    then obtain kvs where k: "metadados = JObj kvs" "kvs \<noteq> []" by blast
    have "main e w =
             (case files w1 (path_join PASTA_SAIDA ''variaveis.parquet'') of
                None \<Rightarrow>
                  Inr (print Fim_do_processo
                        (print (Variaveis_nao_encontrado (path_join PASTA_SAIDA ''variaveis.parquet''))
                          (print Etapa2 w1)))
              | Some df \<Rightarrow>
                  (case laco_variaveis e
                          (case map_of kvs ''Id'' of None \<Rightarrow> JStr ''1737'' | Some v \<Rightarrow> v)
                          (columns df) (rows df)
                          (print (Variaveis_lido (path_join PASTA_SAIDA ''variaveis.parquet''))
                            (print Etapa2 w1)) of
                     Inl err \<Rightarrow> Inl err
                   | Inr w2 \<Rightarrow> Inr (print Fim_do_processo w2)))"
      unfolding main_eq using k
      by (cases "files w1 (path_join PASTA_SAIDA ''variaveis.parquet'')")
        (simp_all add: orquestrar_captura_dados_numericos_def dict_get_default_def Let_def
          files_print)
    with k(1) show ?thesis by blast
  qed
qed

lemma etapa1_ex:
  "orquestrar_captura_metadados (env_stub rede_ex) (print Inicio_do_processo world_vazio) =
     Inr (documento_ex,
          \<lparr>files = [''saida_dados/variaveis.parquet'' \<mapsto>
                     \<lparr>columns = colunas_ex,
                      rows = [[Some (JStr ''63''), Some (JStr ''IPCA''), Some (JStr ''2'')]]\<rparr>],
           requests = [URL_IPCA_METADADOs],
           out = [Inicio_do_processo, Etapa1, Buscando URL_IPCA_METADADOs, Capturados,
                  Arquivo_salvo ''saida_dados/variaveis.parquet'', Separador,
                  Arquivo_nao_gerado ''unidades_de_medida.parquet'', Separador,
                  Arquivo_nao_gerado ''periodos.parquet'', Separador,
                  Arquivo_nao_gerado ''conjuntos_periodos.parquet'', Separador,
                  Arquivo_nao_gerado ''notas.parquet'', Separador]\<rparr>)"
  by (simp add: orquestrar_captura_metadados_def capturar_dados_api_def print_def world_vazio_def
      env_stub_def rede_ex_def documento_ex_def colunas_ex_def Let_def tabelas_para_extrair_def
      extrair_lista_de_metadados_def dict_get_def DataFrame_list_def DataFrame_dicts_def
      unique_keys_def add_unique_def gravar_arquivo_parquet_def df_empty_def DataFrame_empty_def
      path_join_def PASTA_SAIDA_def library_stub_def)

theorem main_etapa2_sse_metadados_witness:
  "map_sum id requests (main (env_stub rede_ex) world_vazio) =
     Inr [URL_IPCA_METADADOs,
          ''https://apisidra.ibge.gov.br/values/t/7060/n1/all/v/63/p/all/d/v63%202'']"
proof -
  have mk: "makedirs_ok (env_stub rede_ex)" by (simp add: env_stub_def)
  show ?thesis
    using main_etapa2_sse_metadados[OF mk etapa1_ex]
    by (simp add: documento_ex_def path_join_def PASTA_SAIDA_def colunas_ex_def
        capturar_variavel_def row_get_def url_dados_def capturar_dados_api_def print_def
        env_stub_def rede_ex_def Let_def URL_IPCA_METADADOs_def)
qed

text \<open>
  C9. When the fetch of the metadata succeeds with a value that is false in Python (an
  empty dict or list, for one), \<^verbatim>\<open>orquestrar_captura_metadados\<close> returns
  \<^verbatim>\<open>None\<close> after the request alone: no table is extracted and no file is written.
  \<^verbatim>\<open>main\<close> then prints that the second stage cannot run and ends; the files are
  as they were and the metadata URL is the only request.
\<close>

theorem metadados_falsy_retorna_none:
  assumes mk: "makedirs_ok e"
    and r: "http_get e (requests w) URL_IPCA_METADADOs = Json v"
    and f: "\<not> truthy v"
  shows "orquestrar_captura_metadados e w =
           Inr (JNull, w\<lparr>requests := requests w @ [URL_IPCA_METADADOs],
                         out := out w @ [Etapa1, Buscando URL_IPCA_METADADOs, Capturados]\<rparr>)
       \<and> main e w =
           Inr (w\<lparr>requests := requests w @ [URL_IPCA_METADADOs],
                  out := out w @ [Inicio_do_processo, Etapa1, Buscando URL_IPCA_METADADOs,
                                  Capturados, Etapa2_nao_executada, Fim_do_processo]\<rparr>)"
proof -
  have a: "orquestrar_captura_metadados e w' =
           Inr (JNull, w'\<lparr>requests := requests w' @ [URL_IPCA_METADADOs],
                         out := out w' @ [Etapa1, Buscando URL_IPCA_METADADOs, Capturados]\<rparr>)"
    if "requests w' = requests w" for w'
    using r f that by (simp add: orquestrar_captura_metadados_def capturar_dados_api_def print_def Let_def)
  have "requests (print Inicio_do_processo w) = requests w" by (simp add: print_def)
  from a[OF this] mk have "main e w = Inr (print Fim_do_processo (print Etapa2_nao_executada
       ((print Inicio_do_processo w)\<lparr>requests := requests (print Inicio_do_processo w) @ [URL_IPCA_METADADOs],
                         out := out (print Inicio_do_processo w) @ [Etapa1, Buscando URL_IPCA_METADADOs, Capturados]\<rparr>)))"
    by (simp add: main_def)
  then have "main e w = Inr (w\<lparr>requests := requests w @ [URL_IPCA_METADADOs],
                  out := out w @ [Inicio_do_processo, Etapa1, Buscando URL_IPCA_METADADOs,
                                  Capturados, Etapa2_nao_executada, Fim_do_processo]\<rparr>)"
    by (simp add: print_def)
  with a[of w] show ?thesis by simp
qed

theorem metadados_falsy_retorna_none_witness:
  "main (env_stub (\<lambda>h u. Json (JObj []))) world_vazio =
     Inr \<lparr>files = Map.empty, requests = [URL_IPCA_METADADOs],
          out = [Inicio_do_processo, Etapa1, Buscando URL_IPCA_METADADOs, Capturados,
                 Etapa2_nao_executada, Fim_do_processo]\<rparr>"
  using metadados_falsy_retorna_none[of "env_stub (\<lambda>h u. Json (JObj []))" world_vazio "JObj []"]
  by (simp add: world_vazio_def env_stub_def)

end
